theory Spec2Isabelle
  imports Main "HOL-Library.Multiset" "HOL-Library.Sublist"
begin

section \<open>Data model\<close>

text \<open>
  Cell values of a row (\<^verbatim>\<open>Record<string, unknown>\<close>). The numbers are the
  integer-valued ones and \<^verbatim>\<open>NaN\<close>; \<open>String\<close> writes an integer in plain decimal
  digits, as the host does below 10 to the power 21. A row is read through its own keys:
  a key that is absent from it reads as \<^verbatim>\<open>undefined\<close>.
\<close>

datatype jsval = JUndefined | JNull | JBool bool | JNum int | JNaN | JStr string

type_synonym row = "string \<rightharpoonup> jsval"

definition get_prop :: "row \<Rightarrow> string \<Rightarrow> jsval" where
  "get_prop r k = (case r k of None \<Rightarrow> JUndefined | Some v \<Rightarrow> v)"

datatype js_error = SyntaxError | TypeError

subsection \<open>\<^verbatim>\<open>String(value)\<close>\<close>

definition digit_char :: "nat \<Rightarrow> char" where
  "digit_char d = ''0123456789'' ! d"

function nat_to_string :: "nat \<Rightarrow> string" where
  "nat_to_string n =
     (if n < 10 then [digit_char n] else nat_to_string (n div 10) @ [digit_char (n mod 10)])"
  by pat_completeness auto
termination
  by (relation "measure (\<lambda>n. n)") auto

declare nat_to_string.simps [simp del]

definition int_to_string :: "int \<Rightarrow> string" where
  "int_to_string i =
     (if i < 0 then CHR ''-'' # nat_to_string (nat (- i)) else nat_to_string (nat i))"

fun String :: "jsval \<Rightarrow> string" where
  "String JUndefined = ''undefined''"
| "String JNull = ''null''"
| "String (JBool b) = (if b then ''true'' else ''false'')"
| "String (JNum i) = int_to_string i"
| "String JNaN = ''NaN''"
| "String (JStr s) = s"

subsection \<open>Filter tree (types.ts)\<close>

datatype FilterOperator = AND | OR

text \<open>
  \<^verbatim>\<open>FilterNode = FilterCondition | FilterGroup\<close>. A condition is
  \<^verbatim>\<open>{id, column, regex, caseSensitive?}\<close>, a group is \<^verbatim>\<open>{id, operator, children}\<close>.
\<close>

datatype FilterNode =
    Condition string string string "bool option"
  | Group string FilterOperator "FilterNode list"

section \<open>Filter evaluation (AdvancedFilter.tsx, createEvaluator)\<close>

text \<open>
  The regular-expression engine is the host's. It is a parameter of the model:
  \<open>RegExp pattern flags\<close> is the constructor, which either throws a
  \<^verbatim>\<open>SyntaxError\<close> or yields a compiled expression, and \<open>test re s\<close> is
  \<^verbatim>\<open>re.test(s)\<close>.
\<close>

text \<open>
  \<^verbatim>\<open>node.caseSensitive ? "" : "i"\<close>: an absent \<^verbatim>\<open>caseSensitive\<close> is falsy.
\<close>

definition regex_flags :: "bool option \<Rightarrow> string" where
  "regex_flags cs = (if cs = Some True then '''' else ''i'')"

text \<open>The body of the \<^verbatim>\<open>try\<close> block of a condition leaf.\<close>

definition condition_try ::
  "(string \<Rightarrow> string \<Rightarrow> js_error + 'r) \<Rightarrow> ('r \<Rightarrow> string \<Rightarrow> bool) \<Rightarrow>
     string \<Rightarrow> string \<Rightarrow> bool option \<Rightarrow> row \<Rightarrow> js_error + bool" where
  "condition_try RegExp test col pat cs r =
     (let flags = regex_flags cs in
      case RegExp pat flags of
        Inl e \<Rightarrow> Inl e
      | Inr re \<Rightarrow>
          (let v = get_prop r col;
               strValue = (if v = JNull \<or> v = JUndefined then '''' else String v)
           in Inr (test re strValue)))"

fun evaluateNode ::
  "(string \<Rightarrow> string \<Rightarrow> js_error + 'r) \<Rightarrow> ('r \<Rightarrow> string \<Rightarrow> bool) \<Rightarrow>
     FilterNode \<Rightarrow> row \<Rightarrow> bool" where
  "evaluateNode RegExp test (Condition i col pat cs) r =
     (if pat = [] then True
      else (case condition_try RegExp test col pat cs r of
              Inl e \<Rightarrow> False
            | Inr b \<Rightarrow> b))"
| "evaluateNode RegExp test (Group i opr children) r =
     (if length children = 0 then True
      else if opr = AND then list_all (\<lambda>child. evaluateNode RegExp test child r) children
      else list_ex (\<lambda>child. evaluateNode RegExp test child r) children)"

definition createEvaluator ::
  "(string \<Rightarrow> string \<Rightarrow> js_error + 'r) \<Rightarrow> ('r \<Rightarrow> string \<Rightarrow> bool) \<Rightarrow>
     FilterNode \<Rightarrow> (row \<Rightarrow> bool)" where
  "createEvaluator RegExp test root = (\<lambda>r. evaluateNode RegExp test root r)"

subsection \<open>Counting the constructions of regular expressions\<close>





text \<open>
  A small concrete engine for evaluating the model on examples: the only malformed
  pattern is an unclosed bracket, and a well-formed pattern matches the strings that
  contain its first character.
\<close>

definition sample_RegExp :: "string \<Rightarrow> string \<Rightarrow> js_error + string" where
  "sample_RegExp pat flags = (if pat = ''['' then Inl SyntaxError else Inr pat)"

definition sample_test :: "string \<Rightarrow> string \<Rightarrow> bool" where
  "sample_test re s = (case re of [] \<Rightarrow> True | c # _ \<Rightarrow> c \<in> set s)"

section \<open>The side table of live values (AdvancedFilter.tsx)\<close>

text \<open>
  \<^verbatim>\<open>filterValuesStore\<close> maps a node id to \<^verbatim>\<open>{column, regex, caseSensitive}\<close>. It is one
  module-level table, so every function that touches it takes it and returns it.
\<close>

type_synonym FilterValue = "string \<times> string \<times> bool"

type_synonym Store = "string \<rightharpoonup> FilterValue"

definition getFilterValue ::
  "Store \<Rightarrow> string \<Rightarrow> string \<Rightarrow> string \<Rightarrow> bool \<Rightarrow> FilterValue \<times> Store" where
  "getFilterValue store i defaultColumn defaultRegex defaultCaseSensitive =
     (case store i of
        None \<Rightarrow>
          ((defaultColumn, defaultRegex, defaultCaseSensitive),
           store(i \<mapsto> (defaultColumn, defaultRegex, defaultCaseSensitive)))
      | Some v \<Rightarrow> (v, store))"

definition setFilterValue :: "Store \<Rightarrow> string \<Rightarrow> string \<Rightarrow> string \<Rightarrow> bool \<Rightarrow> Store" where
  "setFilterValue store i col pat cs = store(i \<mapsto> (col, pat, cs))"

text \<open>\<^verbatim>\<open>node.caseSensitive ?? false\<close>\<close>

definition or_false :: "bool option \<Rightarrow> bool" where
  "or_false cs = (case cs of None \<Rightarrow> False | Some b \<Rightarrow> b)"

fun buildFilterWithValues :: "Store \<Rightarrow> FilterNode \<Rightarrow> FilterNode \<times> Store"
and buildChildren :: "Store \<Rightarrow> FilterNode list \<Rightarrow> FilterNode list \<times> Store"
where
  "buildFilterWithValues store (Condition i col pat cs) =
     (case getFilterValue store i col pat (or_false cs) of
        ((c, p, k), store') \<Rightarrow> (Condition i c p (Some k), store'))"
| "buildFilterWithValues store (Group i opr children) =
     (case buildChildren store children of
        (children', store') \<Rightarrow> (Group i opr children', store'))"
| "buildChildren store [] = ([], store)"
| "buildChildren store (child # rest) =
     (case buildFilterWithValues store child of
        (child', store1) \<Rightarrow>
          (case buildChildren store1 rest of
             (rest', store2) \<Rightarrow> (child' # rest', store2)))"

subsection \<open>Removing a child (FilterGroupBuilder, handleRemoveChild)\<close>

fun removeFromStore :: "Store \<Rightarrow> FilterNode \<Rightarrow> Store" where
  "removeFromStore store (Condition i col pat cs) = store(i := None)"
| "removeFromStore store (Group i opr children) =
     foldl (\<lambda>s child. removeFromStore s child) store children"

text \<open>
  The result is the table after the deletions and the group handed to
  \<^verbatim>\<open>onStructureChange\<close>. Where \<^verbatim>\<open>children[index]\<close> is \<^verbatim>\<open>undefined\<close>, reading its
  \<^verbatim>\<open>type\<close> throws.
\<close>

definition handleRemoveChild ::
  "Store \<Rightarrow> FilterNode \<Rightarrow> nat \<Rightarrow> js_error + (Store \<times> FilterNode)" where
  "handleRemoveChild store grp index =
     (case grp of
        Condition i col pat cs \<Rightarrow> Inl TypeError
      | Group g opr children \<Rightarrow>
          if index < length children
          then Inr (removeFromStore store (children ! index),
                    Group g opr (take index children @ drop (Suc index) children))
          else Inl TypeError)"

text \<open>The ids of the conditions, and of the groups, of a subtree.\<close>

fun condition_ids :: "FilterNode \<Rightarrow> string set" where
  "condition_ids (Condition i col pat cs) = {i}"
| "condition_ids (Group i opr children) = (\<Union>child \<in> set children. condition_ids child)"

fun group_ids :: "FilterNode \<Rightarrow> string set" where
  "group_ids (Condition i col pat cs) = {}"
| "group_ids (Group i opr children) = insert i (\<Union>child \<in> set children. group_ids child)"

section \<open>Apply and debounce (AdvancedFilter.tsx, AdvancedFilter)\<close>

text \<open>
  What \<^verbatim>\<open>props.onFilterChange\<close> receives: the evaluator compiled from a complete tree,
  or the predicate \<^verbatim>\<open>() => true\<close> of a reset.
\<close>

datatype published = Evaluator FilterNode | MatchAll

text \<open>
  The component's state, the side table, and the part of the host it talks to: the
  handles of the timeouts that are armed, the handle the next \<^verbatim>\<open>setTimeout\<close> returns
  (handles are positive, so \<^verbatim>\<open>if (debouncedTimerRef)\<close> tests whether a handle is
  stored), the calls of \<^verbatim>\<open>props.onFilterChange\<close> in order, and the number of calls of
  \<^verbatim>\<open>props.onReset\<close>.
\<close>

record AdvancedFilter =
  filterRoot :: FilterNode
  isAutoApply :: bool
  debouncedTimerRef :: "nat option"
  filterValuesStore :: Store
  armed :: "nat list"
  nextHandle :: nat
  onFilterChange :: "published list"
  onReset :: nat

definition clearTimeout :: "nat \<Rightarrow> AdvancedFilter \<Rightarrow> AdvancedFilter" where
  "clearTimeout h s = s\<lparr>armed := removeAll h (armed s)\<rparr>"

definition applyFilter :: "AdvancedFilter \<Rightarrow> AdvancedFilter" where
  "applyFilter s =
     (case buildFilterWithValues (filterValuesStore s) (filterRoot s) of
        (completeFilter, store') \<Rightarrow>
          s\<lparr>filterValuesStore := store',
            onFilterChange := onFilterChange s @ [Evaluator completeFilter]\<rparr>)"

text \<open>The shared prefix \<^verbatim>\<open>if (debouncedTimerRef) { clearTimeout(...); ... = null }\<close>.\<close>

definition cancelTimer :: "AdvancedFilter \<Rightarrow> AdvancedFilter" where
  "cancelTimer s =
     (case debouncedTimerRef s of
        None \<Rightarrow> s
      | Some h \<Rightarrow> (clearTimeout h s)\<lparr>debouncedTimerRef := None\<rparr>)"

definition triggerDebouncedApply :: "AdvancedFilter \<Rightarrow> AdvancedFilter" where
  "triggerDebouncedApply s =
     (let s1 = cancelTimer s in
      if isAutoApply s1
      then s1\<lparr>debouncedTimerRef := Some (nextHandle s1),
              armed := armed s1 @ [nextHandle s1],
              nextHandle := Suc (nextHandle s1)\<rparr>
      else s1)"

definition handleStructureChange :: "FilterNode \<Rightarrow> AdvancedFilter \<Rightarrow> AdvancedFilter" where
  "handleStructureChange updated s = triggerDebouncedApply (s\<lparr>filterRoot := updated\<rparr>)"

definition handleValueChange :: "AdvancedFilter \<Rightarrow> AdvancedFilter" where
  "handleValueChange s = triggerDebouncedApply s"

definition handleEnterKey :: "AdvancedFilter \<Rightarrow> AdvancedFilter" where
  "handleEnterKey s = (if \<not> isAutoApply s then applyFilter (cancelTimer s) else s)"

definition handleReset :: "AdvancedFilter \<Rightarrow> AdvancedFilter" where
  "handleReset s = s\<lparr>onFilterChange := onFilterChange s @ [MatchAll], onReset := Suc (onReset s)\<rparr>"

definition onCleanup :: "AdvancedFilter \<Rightarrow> AdvancedFilter" where
  "onCleanup s = (case debouncedTimerRef s of None \<Rightarrow> s | Some h \<Rightarrow> clearTimeout h s)"

text \<open>The host runs the callback of an armed timeout, 500 ms after it was set.\<close>

definition timeout_fires :: "nat \<Rightarrow> AdvancedFilter \<Rightarrow> AdvancedFilter" where
  "timeout_fires h s =
     (if h \<in> set (armed s) then applyFilter (s\<lparr>armed := removeAll h (armed s)\<rparr>) else s)"

text \<open>The checkbox of the header: \<^verbatim>\<open>setIsAutoApply(checked)\<close>.\<close>

definition setIsAutoApply :: "bool \<Rightarrow> AdvancedFilter \<Rightarrow> AdvancedFilter" where
  "setIsAutoApply checked s = s\<lparr>isAutoApply := checked\<rparr>"

text \<open>
  Typing into the pattern input of a condition (FilterConditionItem, handleRegexInput):
  the side table is written, then \<^verbatim>\<open>onValueChange\<close> runs.
\<close>

definition handleRegexInput ::
  "string \<Rightarrow> string \<Rightarrow> string \<Rightarrow> bool \<Rightarrow> AdvancedFilter \<Rightarrow> AdvancedFilter" where
  "handleRegexInput i localColumn v localCaseSensitive s =
     handleValueChange
       (s\<lparr>filterValuesStore := setFilterValue (filterValuesStore s) i localColumn v localCaseSensitive\<rparr>)"

text \<open>
  The state after mounting: \<^verbatim>\<open>createDefaultFilter()\<close> with the two generated ids, and
  \<^verbatim>\<open>defaultAutoApply ?? true\<close>.
\<close>

definition createDefaultFilter :: "string \<Rightarrow> string \<Rightarrow> FilterNode" where
  "createDefaultFilter gid cid = Group gid AND [Condition cid [] [] (Some False)]"

definition mount :: "string \<Rightarrow> string \<Rightarrow> bool option \<Rightarrow> Store \<Rightarrow> AdvancedFilter" where
  "mount gid cid defaultAutoApply store =
     \<lparr>filterRoot = createDefaultFilter gid cid,
      isAutoApply = (case defaultAutoApply of None \<Rightarrow> True | Some b \<Rightarrow> b),
      debouncedTimerRef = None,
      filterValuesStore = store,
      armed = [],
      nextHandle = 1,
      onFilterChange = [],
      onReset = 0\<rparr>"

section \<open>Columns (types.ts, FilterableTable.tsx, DataTable/DataTable.tsx)\<close>

text \<open>The fields of a \<^verbatim>\<open>ColumnDefinition\<close> that the functions below read.\<close>

record ColumnDefinition =
  key :: string
  label :: string

definition toggleColumn :: "string list \<Rightarrow> string \<Rightarrow> string list" where
  "toggleColumn current columnKey =
     (if columnKey \<in> set current
      then (if length current > 1 then filter (\<lambda>k. k \<noteq> columnKey) current else current)
      else current @ [columnKey])"

text \<open>The memo \<^verbatim>\<open>visibleColumns\<close> of the table, whose elements become the header cells.\<close>

definition visibleColumns :: "ColumnDefinition list \<Rightarrow> string list \<Rightarrow> ColumnDefinition list" where
  "visibleColumns columns visible = filter (\<lambda>col. key col \<in> set visible) columns"

text \<open>\<^verbatim>\<open>columnsToExport\<close> of \<^verbatim>\<open>handleExport\<close>.\<close>

definition columnsToExport :: "ColumnDefinition list \<Rightarrow> string list \<Rightarrow> ColumnDefinition list" where
  "columnsToExport columns visible = filter (\<lambda>col. key col \<in> set visible) columns"

section \<open>Column resizing (DataTable/DataTable.tsx, handleResizeMove)\<close>

record ResizeData =
  leftColumn :: string
  rightColumn :: string
  startX :: int
  leftStartWidth :: int
  rightStartWidth :: int
  minWidth :: int

definition px :: "int \<Rightarrow> string" where
  "px n = int_to_string n @ ''px''"

text \<open>
  The widths computed by a move of \<open>diff\<close> pixels: the two assignments, then the two
  \<^verbatim>\<open>if\<close> statements one after the other, the second reading what the first wrote.
\<close>

definition newWidths :: "int \<Rightarrow> int \<Rightarrow> int \<Rightarrow> int \<Rightarrow> int \<times> int" where
  "newWidths leftStart rightStart diff minW =
     (let totalWidth = leftStart + rightStart;
          newLeftWidth = leftStart + diff;
          newRightWidth = rightStart - diff;
          (newLeftWidth, newRightWidth) =
             (if newLeftWidth < minW then (minW, totalWidth - minW)
              else (newLeftWidth, newRightWidth));
          (newLeftWidth, newRightWidth) =
             (if newRightWidth < minW then (totalWidth - minW, minW)
              else (newLeftWidth, newRightWidth))
      in (newLeftWidth, newRightWidth))"

text \<open>The calls of \<^verbatim>\<open>props.onColumnResize\<close> made by one mouse move, in order.\<close>

definition handleResizeMove :: "ResizeData option \<Rightarrow> int \<Rightarrow> (string \<times> string) list" where
  "handleResizeMove resizeData clientX =
     (case resizeData of
        None \<Rightarrow> []
      | Some rd \<Rightarrow>
          (let diff = clientX - startX rd in
           if diff = 0 then []
           else (case newWidths (leftStartWidth rd) (rightStartWidth rd) diff (minWidth rd) of
                   (newLeftWidth, newRightWidth) \<Rightarrow>
                     [(leftColumn rd, px newLeftWidth), (rightColumn rd, px newRightWidth)])))"

text \<open>
  The clamping as the specification words it, an else-if chain, for comparison with
  \<open>newWidths\<close>.
\<close>

definition else_if_chain :: "int \<Rightarrow> int \<Rightarrow> int \<Rightarrow> int \<Rightarrow> int \<times> int" where
  "else_if_chain leftStart rightStart diff minW =
     (let total = leftStart + rightStart;
          newLeft = leftStart + diff;
          newRight = rightStart - diff
      in if newLeft < minW then (minW, total - minW)
         else if newRight < minW then (total - minW, minW)
         else (newLeft, newRight))"

section \<open>Sorting (FilterableTable.tsx, sortData)\<close>

datatype SortDirection = asc | desc

record SortState =
  column :: "string option"
  direction :: "SortDirection option"

text \<open>\<^verbatim>\<open>typeof v === "number"\<close> and \<^verbatim>\<open>typeof v === "boolean"\<close>.\<close>

fun is_number :: "jsval \<Rightarrow> bool" where
  "is_number (JNum n) = True"
| "is_number JNaN = True"
| "is_number v = False"

fun is_boolean :: "jsval \<Rightarrow> bool" where
  "is_boolean (JBool b) = True"
| "is_boolean v = False"

definition getRawValue :: "row \<Rightarrow> string \<Rightarrow> jsval" where
  "getRawValue r c =
     (let v = get_prop r c in
      if v = JNull \<or> v = JUndefined then JStr ''''
      else if is_number v \<or> is_boolean v then v
      else JStr (String v))"

text \<open>
  A number that a comparator returns: \<open>None\<close> is \<^verbatim>\<open>NaN\<close>. The difference of two
  numbers is \<^verbatim>\<open>NaN\<close> as soon as one of them is.
\<close>

fun minus_number :: "jsval \<Rightarrow> jsval \<Rightarrow> int option" where
  "minus_number (JNum x) (JNum y) = Some (x - y)"
| "minus_number a b = None"

text \<open>
  The comparator handed to \<^verbatim>\<open>sort\<close>. \<open>toLowerCase\<close> and \<open>localeCompare\<close> are the
  host's string functions and depend on its locale; they are parameters.
\<close>

definition compareRows ::
  "(string \<Rightarrow> string) \<Rightarrow> (string \<Rightarrow> string \<Rightarrow> int) \<Rightarrow> string \<Rightarrow> SortDirection \<Rightarrow>
     row \<Rightarrow> row \<Rightarrow> int option" where
  "compareRows toLowerCase localeCompare c d a b =
     (let aVal = getRawValue a c;
          bVal = getRawValue b c;
          comparison =
            (if is_number aVal \<and> is_number bVal then minus_number aVal bVal
             else if is_boolean aVal \<and> is_boolean bVal
               then Some (if aVal = bVal then 0 else if aVal = JBool True then 1 else - 1)
             else Some (localeCompare (toLowerCase (String aVal)) (toLowerCase (String bVal))))
      in if d = asc then comparison else map_option uminus comparison)"

subsection \<open>The host's \<^verbatim>\<open>Array.prototype.sort\<close>\<close>

text \<open>
  What the sort reads from a call of the comparator (ECMAScript, SortCompare): a result
  of \<^verbatim>\<open>NaN\<close> counts as 0.
\<close>

definition SortCompare :: "('a \<Rightarrow> 'a \<Rightarrow> int option) \<Rightarrow> 'a \<Rightarrow> 'a \<Rightarrow> int" where
  "SortCompare comparefn a b = (case comparefn a b of None \<Rightarrow> 0 | Some v \<Rightarrow> v)"

text \<open>
  The language's notion of a consistent comparator on a set of values: equality under
  the comparator is reflexive, symmetric and transitive, and less-than and greater-than
  are transitive.
\<close>

definition consistent_comparator :: "('a \<Rightarrow> 'a \<Rightarrow> int) \<Rightarrow> 'a set \<Rightarrow> bool" where
  "consistent_comparator cf S \<longleftrightarrow>
     (\<forall>a\<in>S. cf a a = 0)
     \<and> (\<forall>a\<in>S. \<forall>b\<in>S. cf a b = 0 \<longrightarrow> cf b a = 0)
     \<and> (\<forall>a\<in>S. \<forall>b\<in>S. \<forall>e\<in>S. cf a b = 0 \<and> cf b e = 0 \<longrightarrow> cf a e = 0)
     \<and> (\<forall>a\<in>S. \<forall>b\<in>S. \<forall>e\<in>S. cf a b < 0 \<and> cf b e < 0 \<longrightarrow> cf a e < 0)
     \<and> (\<forall>a\<in>S. \<forall>b\<in>S. \<forall>e\<in>S. cf a b > 0 \<and> cf b e > 0 \<longrightarrow> cf a e > 0)"

text \<open>
  The sort itself belongs to the host and is a parameter of \<open>sortData\<close>. What the
  language guarantees of it: the result holds the elements of the array, each as often
  as the array does; and where the comparator is consistent on them, no element of the
  result compares greater than a later one. Where the comparator is not consistent, the
  order is left to the implementation.
\<close>

definition host_sort :: "((row \<Rightarrow> row \<Rightarrow> int option) \<Rightarrow> row list \<Rightarrow> row list) \<Rightarrow> bool" where
  "host_sort sortfn \<longleftrightarrow>
     (\<forall>cf xs. mset (sortfn cf xs) = mset xs)
     \<and> (\<forall>cf xs. consistent_comparator (SortCompare cf) (set xs) \<longrightarrow>
           sorted_wrt (\<lambda>a b. SortCompare cf a b \<le> 0) (sortfn cf xs))"

text \<open>\<^verbatim>\<open>!column\<close> holds of \<^verbatim>\<open>null\<close> and of the empty string.\<close>

definition sortData ::
  "((row \<Rightarrow> row \<Rightarrow> int option) \<Rightarrow> row list \<Rightarrow> row list) \<Rightarrow>
     (string \<Rightarrow> string) \<Rightarrow> (string \<Rightarrow> string \<Rightarrow> int) \<Rightarrow> SortState \<Rightarrow> row list \<Rightarrow> row list" where
  "sortData sortfn toLowerCase localeCompare sortState data =
     (case (column sortState, direction sortState) of
        (Some c, Some d) \<Rightarrow>
          if c = [] then data
          else sortfn (compareRows toLowerCase localeCompare c d) data
      | _ \<Rightarrow> data)"

text \<open>\<^verbatim>\<open>processedData\<close>: the rows the evaluator keeps, sorted.\<close>

definition processedData ::
  "((row \<Rightarrow> row \<Rightarrow> int option) \<Rightarrow> row list \<Rightarrow> row list) \<Rightarrow>
     (string \<Rightarrow> string) \<Rightarrow> (string \<Rightarrow> string \<Rightarrow> int) \<Rightarrow> (row \<Rightarrow> bool) \<Rightarrow> SortState \<Rightarrow>
     row list \<Rightarrow> row list" where
  "processedData sortfn toLowerCase localeCompare filterEvaluator sortState data =
     sortData sortfn toLowerCase localeCompare sortState (filter filterEvaluator data)"

subsection \<open>Sample host functions\<close>

text \<open>
  For evaluating examples: lower-casing of the ASCII letters, comparison of strings
  byte by byte, and an insertion sort that puts an element before the first one it
  does not compare greater than.
\<close>

definition sample_toLowerCase :: "string \<Rightarrow> string" where
  "sample_toLowerCase s =
     map (\<lambda>c. if (65::nat) \<le> of_char c \<and> of_char c \<le> (90::nat)
              then char_of (of_char c + (32::nat)) else c) s"

fun sample_localeCompare :: "string \<Rightarrow> string \<Rightarrow> int" where
  "sample_localeCompare [] [] = 0"
| "sample_localeCompare [] (y # ys) = - 1"
| "sample_localeCompare (x # xs) [] = 1"
| "sample_localeCompare (x # xs) (y # ys) =
     (if (of_char x :: nat) < of_char y then - 1
      else if (of_char y :: nat) < of_char x then 1
      else sample_localeCompare xs ys)"

fun insert_sorted :: "('a \<Rightarrow> 'a \<Rightarrow> int) \<Rightarrow> 'a \<Rightarrow> 'a list \<Rightarrow> 'a list" where
  "insert_sorted cmp x [] = [x]"
| "insert_sorted cmp x (y # ys) =
     (if cmp x y \<le> 0 then x # y # ys else y # insert_sorted cmp x ys)"

fun array_sort :: "('a \<Rightarrow> 'a \<Rightarrow> int) \<Rightarrow> 'a list \<Rightarrow> 'a list" where
  "array_sort cmp [] = []"
| "array_sort cmp (x # xs) = insert_sorted cmp x (array_sort cmp xs)"

definition sample_sort :: "(row \<Rightarrow> row \<Rightarrow> int option) \<Rightarrow> row list \<Rightarrow> row list" where
  "sample_sort cf xs = array_sort (SortCompare cf) xs"

section \<open>CSV export (FilterableTable.tsx, handleExport)\<close>

text \<open>\<^verbatim>\<open>str.replace(/"/g, '""')\<close>\<close>

fun replace_quotes :: "string \<Rightarrow> string" where
  "replace_quotes [] = []"
| "replace_quotes (c # cs) =
     (if c = CHR 0x22 then CHR 0x22 # CHR 0x22 # replace_quotes cs else c # replace_quotes cs)"

definition csvCell :: "jsval \<Rightarrow> string" where
  "csvCell v =
     (if v = JNull \<or> v = JUndefined then ''''
      else (case v of
              JBool b \<Rightarrow> (if b then ''Yes'' else ''No'')
            | _ \<Rightarrow>
                (let str = String v in
                 if CHR '','' \<in> set str \<or> CHR 0x22 \<in> set str \<or> CHR 0x0A \<in> set str
                 then [CHR 0x22] @ replace_quotes str @ [CHR 0x22]
                 else str)))"

text \<open>\<^verbatim>\<open>Array.prototype.join\<close> on strings.\<close>

fun join :: "string \<Rightarrow> string list \<Rightarrow> string" where
  "join sep [] = []"
| "join sep [x] = x"
| "join sep (x # y # ys) = x @ sep @ join sep (y # ys)"

definition csvContent :: "ColumnDefinition list \<Rightarrow> string list \<Rightarrow> row list \<Rightarrow> string" where
  "csvContent columns visible dataToExport =
     (let cols = columnsToExport columns visible;
          headers = map label cols;
          rows = map (\<lambda>r. map (\<lambda>col. csvCell (get_prop r (key col))) cols) dataToExport
      in join [CHR 0x0A] (join '','' headers # map (\<lambda>r. join '','' r) rows))"

text \<open>
  The bytes of the blob: the string that starts with the character U+FEFF and goes
  on with \<^verbatim>\<open>csvContent\<close>, in UTF-8, in which U+FEFF is the three bytes EF BB BF.
\<close>

definition BOM :: string where
  "BOM = [CHR 0xEF, CHR 0xBB, CHR 0xBF]"

datatype ExportDataType = ExportVisible | ExportAll

definition handleExport ::
  "ExportDataType \<Rightarrow> ColumnDefinition list \<Rightarrow> string list \<Rightarrow> row list \<Rightarrow> row list \<Rightarrow> string" where
  "handleExport exportType columns visible processed data =
     (let dataToExport = (if exportType = ExportVisible then processed else data)
      in BOM @ csvContent columns visible dataToExport)"

section \<open>Theorems\<close>

subsection \<open>The instrumented evaluator\<close>





subsection \<open>Deleting a subtree from the side table\<close>

lemma removeFromStore_apply:
  "removeFromStore store node i = (if i \<in> condition_ids node then None else store i)"
proof (induction store node rule: removeFromStore.induct)
  case (1 store j col pat cs)
  show ?case by simp
next
  case (2 store g opr children)
  have "foldl (\<lambda>s child. removeFromStore s child) st nodes i
          = (if i \<in> (\<Union>child \<in> set nodes. condition_ids child) then None else st i)"
    if "set nodes \<subseteq> set children" for nodes st
    using that
  proof (induction nodes arbitrary: st)
    case Nil
    show ?case by simp
  next
    case (Cons n nodes)
    have "n \<in> set children" using Cons.prems by simp
    then have "removeFromStore st n i = (if i \<in> condition_ids n then None else st i)"
      by (rule "2.IH")
    moreover have "set nodes \<subseteq> set children" using Cons.prems by simp
    ultimately show ?case using Cons.IH [of "removeFromStore st n"] by simp
  qed
  then show ?case by simp
qed

lemma removeFromStore_dom:
  "dom (removeFromStore store node) = dom store - condition_ids node"
  by (auto simp: dom_def removeFromStore_apply)

text \<open>
  C1. For every filter tree and every row: a condition leaf whose pattern is the empty
  string is true; a group without children is true; an AND group is true exactly when
  every child is true; an OR group (the childless one being true by the rule before) is
  true exactly when at least one child is true; and the compiled evaluator is the
  function of tree and row given by the recursive evaluation, for any regular-expression
  engine.
\<close>

theorem evaluateNode_rules:
  "evaluateNode RegExp test (Condition i col [] cs) r
   \<and> evaluateNode RegExp test (Group g opr []) r
   \<and> (evaluateNode RegExp test (Group g AND children) r
        \<longleftrightarrow> (\<forall>child \<in> set children. evaluateNode RegExp test child r))
   \<and> (children \<noteq> [] \<longrightarrow>
        (evaluateNode RegExp test (Group g OR children) r
          \<longleftrightarrow> (\<exists>child \<in> set children. evaluateNode RegExp test child r)))
   \<and> createEvaluator RegExp test root r = evaluateNode RegExp test root r"
  by (simp add: createEvaluator_def list_all_iff list_ex_iff)

theorem evaluateNode_rules_witness:
  "[Condition ''c1'' ''name'' '''' None, Condition ''c2'' ''name'' ''['' None] \<noteq> []
   \<and> evaluateNode sample_RegExp sample_test
        (Group ''g'' OR [Condition ''c1'' ''name'' '''' None, Condition ''c2'' ''name'' ''['' None])
        Map.empty
   \<and> \<not> evaluateNode sample_RegExp sample_test
        (Group ''g'' AND [Condition ''c1'' ''name'' '''' None, Condition ''c2'' ''name'' ''['' None])
        Map.empty"
  using evaluateNode_rules [of sample_RegExp sample_test "''c1''" "''name''" None Map.empty
      "''g''" AND "[Condition ''c1'' ''name'' '''' None, Condition ''c2'' ''name'' ''['' None]"]
  by (simp add: sample_RegExp_def condition_try_def)

text \<open>
  C5. A condition whose pattern the constructor rejects evaluates to false for every row
  (such a pattern is not empty, the empty pattern being a valid expression): the
  exception is caught at the leaf. Evaluation goes on around it: an AND group holding
  the condition is false, an OR group is decided by its other children, and filtering
  a row set with a root AND group that holds it yields the empty list.
\<close>

theorem invalid_pattern_fail_closed:
  assumes "RegExp pat (regex_flags cs) = Inl e" and "pat \<noteq> []"
  shows "(\<forall>r. \<not> evaluateNode RegExp test (Condition i col pat cs) r)
    \<and> (Condition i col pat cs \<in> set children \<longrightarrow>
           \<not> evaluateNode RegExp test (Group g AND children) r)
    \<and> (evaluateNode RegExp test (Group g OR (Condition i col pat cs # others)) r
           \<longleftrightarrow> (\<exists>child \<in> set others. evaluateNode RegExp test child r))
    \<and> (Condition i col pat cs \<in> set children \<longrightarrow>
           filter (createEvaluator RegExp test (Group g AND children)) rows = [])"
proof -
  have bad: "\<not> evaluateNode RegExp test (Condition i col pat cs) r" for r
    using assms by (simp add: condition_try_def)
  have conj: "\<not> evaluateNode RegExp test (Group g AND children) r"
    if "Condition i col pat cs \<in> set children" for r
  proof -
    have "\<not> list_all (\<lambda>child. evaluateNode RegExp test child r) children"
      unfolding list_all_iff using that bad [of r] by blast
    moreover have "children \<noteq> []" using that by auto
    ultimately show ?thesis by simp
  qed
  have disj: "evaluateNode RegExp test (Group g OR (Condition i col pat cs # others)) r
           \<longleftrightarrow> (\<exists>child \<in> set others. evaluateNode RegExp test child r)"
    using bad [of r] by (simp add: list_ex_iff)
  have rows: "filter (createEvaluator RegExp test (Group g AND children)) rows = []"
    if "Condition i col pat cs \<in> set children"
    using conj [OF that] by (simp add: createEvaluator_def)
  show ?thesis
    using bad conj disj rows by blast
qed

theorem invalid_pattern_fail_closed_witness:
  "sample_RegExp ''['' (regex_flags None) = Inl SyntaxError \<and> ''['' \<noteq> []
   \<and> \<not> evaluateNode sample_RegExp sample_test (Condition ''c2'' ''name'' ''['' None)
         [''name'' \<mapsto> JStr ''alice'']
   \<and> filter (createEvaluator sample_RegExp sample_test
         (Group ''g'' AND [Condition ''c2'' ''name'' ''['' None]))
         [[''name'' \<mapsto> JStr ''alice''], [''name'' \<mapsto> JStr ''bob'']] = []"
proof -
  have h: "sample_RegExp ''['' (regex_flags None) = Inl SyntaxError"
    by (simp add: sample_RegExp_def)
  have n: "''['' \<noteq> []" by simp
  show ?thesis
    using h invalid_pattern_fail_closed [where RegExp = sample_RegExp and pat = "''[''"
        and cs = None and e = SyntaxError and test = sample_test and i = "''c2''"
        and col = "''name''" and children = "[Condition ''c2'' ''name'' ''['' None]"
        and g = "''g''" and r = "[''name'' \<mapsto> JStr ''alice'']" and others = "[]"
        and rows = "[[''name'' \<mapsto> JStr ''alice''], [''name'' \<mapsto> JStr ''bob'']]", OF h n]
    by simp
qed




text \<open>
  C10. Removing the child at an index of a group succeeds when the group has a child
  there. The group handed on has that child deleted and the others kept in order. The
  side table loses exactly the entries of the conditions of the removed subtree, at
  every depth, and no other entry. Entries are written under condition ids only; when
  no entry stood under the id of a removed group before, no entry stands under the id
  of any removed node afterwards.
\<close>

theorem handleRemoveChild_discards:
  assumes "index < length children"
  shows "case handleRemoveChild store (Group g opr children) index of
           Inl e \<Rightarrow> False
         | Inr (store', grp') \<Rightarrow>
             (\<exists>children'. grp' = Group g opr children'
                \<and> Suc (length children') = length children
                \<and> (\<forall>j < index. children' ! j = children ! j)
                \<and> (\<forall>j. index \<le> j \<and> j < length children' \<longrightarrow> children' ! j = children ! Suc j))
             \<and> (\<forall>i \<in> condition_ids (children ! index). store' i = None)
             \<and> (\<forall>i. i \<notin> condition_ids (children ! index) \<longrightarrow> store' i = store i)
             \<and> dom store' = dom store - condition_ids (children ! index)
             \<and> (dom store \<inter> group_ids (children ! index) = {} \<longrightarrow>
                  dom store' \<inter> (condition_ids (children ! index) \<union> group_ids (children ! index)) = {})"
proof -
  let ?removed = "children ! index"
  let ?kept = "take index children @ drop (Suc index) children"
  have len: "Suc (length ?kept) = length children"
    using assms by simp
  have before: "\<forall>j < index. ?kept ! j = children ! j"
    using assms by (simp add: nth_append)
  have after: "\<forall>j. index \<le> j \<and> j < length ?kept \<longrightarrow> ?kept ! j = children ! Suc j"
    using assms by (auto simp: nth_append min_def)
  have shape: "\<exists>children'. Group g opr ?kept = Group g opr children'
                \<and> Suc (length children') = length children
                \<and> (\<forall>j < index. children' ! j = children ! j)
                \<and> (\<forall>j. index \<le> j \<and> j < length children' \<longrightarrow> children' ! j = children ! Suc j)"
    using len before after by blast
  have gone: "\<forall>i \<in> condition_ids ?removed. removeFromStore store ?removed i = None"
    by (simp add: removeFromStore_apply)
  have rest: "\<forall>i. i \<notin> condition_ids ?removed \<longrightarrow> removeFromStore store ?removed i = store i"
    by (simp add: removeFromStore_apply)
  have d: "dom (removeFromStore store ?removed) = dom store - condition_ids ?removed"
    by (rule removeFromStore_dom)
  have all: "dom store \<inter> group_ids ?removed = {} \<longrightarrow>
      dom (removeFromStore store ?removed) \<inter> (condition_ids ?removed \<union> group_ids ?removed) = {}"
    unfolding d by blast
  have run: "handleRemoveChild store (Group g opr children) index
      = Inr (removeFromStore store ?removed, Group g opr ?kept)"
    using assms by (simp add: handleRemoveChild_def)
  show ?thesis
    unfolding run by (simp only: sum.case prod.case) (intro conjI shape gone rest d all)
qed

theorem handleRemoveChild_discards_witness:
  "(1::nat) < length [Condition ''c1'' ''name'' ''a'' None,
       Group ''g2'' OR [Condition ''c2'' ''name'' ''b'' None,
         Group ''g3'' AND [Condition ''c3'' ''age'' ''4'' None]]]
   \<and> (case handleRemoveChild
            [''c1'' \<mapsto> (''name'', ''a'', False), ''c2'' \<mapsto> (''name'', ''b'', False),
             ''c3'' \<mapsto> (''age'', ''4'', False)]
            (Group ''g1'' AND [Condition ''c1'' ''name'' ''a'' None,
               Group ''g2'' OR [Condition ''c2'' ''name'' ''b'' None,
                 Group ''g3'' AND [Condition ''c3'' ''age'' ''4'' None]]]) 1 of
         Inl e \<Rightarrow> False
       | Inr (store', grp') \<Rightarrow>
           grp' = Group ''g1'' AND [Condition ''c1'' ''name'' ''a'' None]
           \<and> store' ''c1'' = Some (''name'', ''a'', False)
           \<and> store' ''c2'' = None \<and> store' ''c3'' = None)"
  using handleRemoveChild_discards [where index = 1 and g = "''g1''" and opr = AND
      and children = "[Condition ''c1'' ''name'' ''a'' None,
       Group ''g2'' OR [Condition ''c2'' ''name'' ''b'' None,
         Group ''g3'' AND [Condition ''c3'' ''age'' ''4'' None]]]"
      and store = "[''c1'' \<mapsto> (''name'', ''a'', False), ''c2'' \<mapsto> (''name'', ''b'', False),
             ''c3'' \<mapsto> (''age'', ''4'', False)]"]
  by (simp add: handleRemoveChild_def)

text \<open>
  C6, as stated, fails: with auto-apply enabled the Enter key does nothing. After one
  edit of a freshly mounted filter (auto-apply on by default) the timer with handle 1
  is armed; Enter leaves it armed and publishes nothing.
\<close>

theorem handleEnterKey_auto_apply_counterexample:
  "isAutoApply (handleRegexInput ''c'' ''name'' ''a'' False (mount ''g'' ''c'' None Map.empty))
   \<and> armed (handleEnterKey
        (handleRegexInput ''c'' ''name'' ''a'' False (mount ''g'' ''c'' None Map.empty))) = [1]
   \<and> debouncedTimerRef (handleEnterKey
        (handleRegexInput ''c'' ''name'' ''a'' False (mount ''g'' ''c'' None Map.empty))) = Some 1
   \<and> onFilterChange (handleEnterKey
        (handleRegexInput ''c'' ''name'' ''a'' False (mount ''g'' ''c'' None Map.empty))) = []"
  by (simp add: handleEnterKey_def handleRegexInput_def handleValueChange_def
      triggerDebouncedApply_def cancelTimer_def mount_def)

text \<open>
  C6, amended. When auto-apply is disabled, the Enter key cancels the armed timer, if
  any, and at once publishes the evaluator of the current tree completed with the live
  values of the side table. When auto-apply is enabled, the Enter key changes nothing:
  an armed timer stays armed and nothing is published until it fires.
\<close>

theorem handleEnterKey_commit:
  "(\<not> isAutoApply s \<longrightarrow>
      debouncedTimerRef (handleEnterKey s) = None
      \<and> (\<forall>h. debouncedTimerRef s = Some h \<longrightarrow> h \<notin> set (armed (handleEnterKey s)))
      \<and> onFilterChange (handleEnterKey s)
          = onFilterChange s
            @ [Evaluator (fst (buildFilterWithValues (filterValuesStore s) (filterRoot s)))])
   \<and> (isAutoApply s \<longrightarrow> handleEnterKey s = s)"
  by (cases "debouncedTimerRef s")
    (auto simp: handleEnterKey_def applyFilter_def cancelTimer_def clearTimeout_def
      split: prod.splits)

theorem handleEnterKey_commit_witness:
  "\<not> isAutoApply (setIsAutoApply False
        (handleRegexInput ''c'' ''name'' ''a'' False (mount ''g'' ''c'' None Map.empty)))
   \<and> armed (setIsAutoApply False
        (handleRegexInput ''c'' ''name'' ''a'' False (mount ''g'' ''c'' None Map.empty))) = [1]
   \<and> armed (handleEnterKey (setIsAutoApply False
        (handleRegexInput ''c'' ''name'' ''a'' False (mount ''g'' ''c'' None Map.empty)))) = []
   \<and> onFilterChange (handleEnterKey (setIsAutoApply False
        (handleRegexInput ''c'' ''name'' ''a'' False (mount ''g'' ''c'' None Map.empty))))
      = [Evaluator (Group ''g'' AND [Condition ''c'' ''name'' ''a'' (Some False)])]"
  using handleEnterKey_commit [of "setIsAutoApply False
        (handleRegexInput ''c'' ''name'' ''a'' False (mount ''g'' ''c'' None Map.empty))"]
  by (simp add: handleEnterKey_def handleRegexInput_def handleValueChange_def
      triggerDebouncedApply_def cancelTimer_def mount_def setIsAutoApply_def clearTimeout_def
      applyFilter_def createDefaultFilter_def getFilterValue_def setFilterValue_def
      or_false_def)

text \<open>
  C7. The reset handler publishes the match-all predicate and calls \<^verbatim>\<open>onReset\<close>, and
  leaves the timer alone: the armed timeouts and the stored handle are what they were.
  The cleanup handler clears the timer. After an edit, a reset and the timeout, the
  evaluator of the tree edited before the reset is published after the match-all
  predicate; after an edit and the cleanup, the timeout publishes nothing.
\<close>

theorem handleReset_late_publish:
  "armed (handleReset s) = armed s
   \<and> debouncedTimerRef (handleReset s) = debouncedTimerRef s
   \<and> onFilterChange (handleReset s) = onFilterChange s @ [MatchAll]
   \<and> armed (handleReset
      (handleRegexInput ''c'' ''name'' ''a'' False (mount ''g'' ''c'' None Map.empty))) = [1]
   \<and> onFilterChange (timeout_fires 1 (handleReset
      (handleRegexInput ''c'' ''name'' ''a'' False (mount ''g'' ''c'' None Map.empty))))
     = [MatchAll, Evaluator (Group ''g'' AND [Condition ''c'' ''name'' ''a'' (Some False)])]
   \<and> armed (onCleanup
      (handleRegexInput ''c'' ''name'' ''a'' False (mount ''g'' ''c'' None Map.empty))) = []
   \<and> onFilterChange (timeout_fires 1 (onCleanup
      (handleRegexInput ''c'' ''name'' ''a'' False (mount ''g'' ''c'' None Map.empty)))) = []"
  by (simp add: handleReset_def handleRegexInput_def handleValueChange_def
      triggerDebouncedApply_def cancelTimer_def mount_def timeout_fires_def onCleanup_def
      clearTimeout_def applyFilter_def createDefaultFilter_def getFilterValue_def
      setFilterValue_def or_false_def)

subsection \<open>Decimal numerals of the examples\<close>

lemma int_to_string_examples:
  "int_to_string 10 = ''10''" "int_to_string 50 = ''50''" "int_to_string 70 = ''70''"
  "int_to_string 130 = ''130''" "int_to_string 150 = ''150''"
  by (simp_all add: int_to_string_def nat_to_string.simps digit_char_def)

text \<open>
  C3, as stated, fails: the two checks are two \<^verbatim>\<open>if\<close> statements in sequence, not an
  else-if chain. For two columns of 30px each, a move of 10px to the left and a minimum
  of 50px, the first check sets 50/10 and the second, reading that, sets 10/50, where
  the else-if chain gives 50/10.
\<close>

theorem resize_else_if_counterexample:
  "newWidths 30 30 (- 10) 50 = (10, 50)
   \<and> else_if_chain 30 30 (- 10) 50 = (50, 10)
   \<and> handleResizeMove
        (Some \<lparr>leftColumn = ''a'', rightColumn = ''b'', startX = 200, leftStartWidth = 30,
               rightStartWidth = 30, minWidth = 50\<rparr>) 190
      = [(''a'', ''10px''), (''b'', ''50px'')]"
  by (simp add: newWidths_def else_if_chain_def handleResizeMove_def px_def
      int_to_string_examples)

text \<open>
  C3, amended. A move with a pointer delta other than 0 publishes the left and then the
  right width, computed as newLeft = leftStartWidth + delta and
  newRight = rightStartWidth - delta followed by two checks in sequence: if
  newLeft < minWidth then newLeft = minWidth and newRight = total - minWidth; then, on
  these values, if newRight < minWidth then newRight = minWidth and
  newLeft = total - minWidth. The sum of the two widths is the sum of the start widths.
  Whenever the two start widths add up to at least twice minWidth, the result is that of
  the else-if chain; 100/100 with a minimum of 50 gives 130/70 for a delta of 30 and
  150/50 for a delta of 70. (A move with delta 0 publishes nothing.)
\<close>

theorem resize_two_checks:
  "(clientX \<noteq> startX rd \<longrightarrow>
      handleResizeMove (Some rd) clientX
        = [(leftColumn rd,
            px (fst (newWidths (leftStartWidth rd) (rightStartWidth rd) (clientX - startX rd)
                       (minWidth rd)))),
           (rightColumn rd,
            px (snd (newWidths (leftStartWidth rd) (rightStartWidth rd) (clientX - startX rd)
                       (minWidth rd))))])
   \<and> newWidths l r d m =
        (if l + d < m
         then (if l + r - m < m then (l + r - m, m) else (m, l + r - m))
         else (if r - d < m then (l + r - m, m) else (l + d, r - d)))
   \<and> fst (newWidths l r d m) + snd (newWidths l r d m) = l + r
   \<and> (2 * m \<le> l + r \<longrightarrow> newWidths l r d m = else_if_chain l r d m)
   \<and> newWidths 100 100 30 50 = (130, 70)
   \<and> newWidths 100 100 70 50 = (150, 50)"
  by (simp add: newWidths_def else_if_chain_def handleResizeMove_def Let_def
      split: prod.splits)

theorem resize_two_checks_witness:
  "(270::int) \<noteq> startX \<lparr>leftColumn = ''a'', rightColumn = ''b'', startX = 200,
        leftStartWidth = 100, rightStartWidth = 100, minWidth = 50\<rparr>
   \<and> (2 * 50 \<le> (100::int) + 100)
   \<and> handleResizeMove
        (Some \<lparr>leftColumn = ''a'', rightColumn = ''b'', startX = 200, leftStartWidth = 100,
               rightStartWidth = 100, minWidth = 50\<rparr>) 270
      = [(''a'', ''150px''), (''b'', ''50px'')]
   \<and> else_if_chain 100 100 70 50 = (150, 50)"
  using resize_two_checks [of 270 "\<lparr>leftColumn = ''a'', rightColumn = ''b'', startX = 200,
        leftStartWidth = 100, rightStartWidth = 100, minWidth = 50\<rparr>" 100 100 70 50]
  by (auto simp: px_def int_to_string_examples)

text \<open>
  C9, as stated, fails: the table and the export filter the column definitions by
  membership in the visible-columns sequence, so they follow the order of the
  definitions. With columns a, b, c all visible, toggling a off and on gives the
  sequence b, c, a; the table still shows a, b, c and the header line of the export is
  A,B,C.
\<close>

theorem visible_order_counterexample:
  "toggleColumn (toggleColumn [''a'', ''b'', ''c''] ''a'') ''a'' = [''b'', ''c'', ''a'']
   \<and> map key (visibleColumns
        [\<lparr>key = ''a'', label = ''A''\<rparr>, \<lparr>key = ''b'', label = ''B''\<rparr>, \<lparr>key = ''c'', label = ''C''\<rparr>]
        (toggleColumn (toggleColumn [''a'', ''b'', ''c''] ''a'') ''a'')) = [''a'', ''b'', ''c'']
   \<and> csvContent
        [\<lparr>key = ''a'', label = ''A''\<rparr>, \<lparr>key = ''b'', label = ''B''\<rparr>, \<lparr>key = ''c'', label = ''C''\<rparr>]
        (toggleColumn (toggleColumn [''a'', ''b'', ''c''] ''a'') ''a'') [] = ''A,B,C''"
  by (simp add: toggleColumn_def visibleColumns_def csvContent_def columnsToExport_def)

text \<open>
  C9, amended. The visible-columns sequence acts as a set: the table and the CSV export
  both emit the column definitions whose key occurs in it, in the order of the column
  definitions, whatever the order of the sequence. Toggling a hidden column on appends
  its key to the sequence; toggling a visible one off removes it unless it is the only
  one; neither changes the order in which the columns are shown or exported.
\<close>

theorem visible_order_is_schema_order:
  "map key (visibleColumns columns visible) = filter (\<lambda>k. k \<in> set visible) (map key columns)
   \<and> columnsToExport columns visible = visibleColumns columns visible
   \<and> subseq (visibleColumns columns visible) columns
   \<and> (set visible' = set visible \<longrightarrow>
        visibleColumns columns visible' = visibleColumns columns visible)
   \<and> (k \<notin> set visible \<longrightarrow> toggleColumn visible k = visible @ [k])
   \<and> (k \<in> set visible \<longrightarrow>
        toggleColumn visible k
          = (if length visible > 1 then filter (\<lambda>j. j \<noteq> k) visible else visible))"
  by (simp add: visibleColumns_def columnsToExport_def toggleColumn_def filter_map comp_def)

theorem visible_order_is_schema_order_witness:
  "set [''b'', ''c'', ''a''] = set [''a'', ''b'', ''c'']
   \<and> ''a'' \<notin> set [''b'', ''c''] \<and> ''a'' \<in> set [''a'', ''b'', ''c'']
   \<and> toggleColumn [''a'', ''b'', ''c''] ''a'' = [''b'', ''c'']
   \<and> toggleColumn [''b'', ''c''] ''a'' = [''b'', ''c'', ''a'']
   \<and> visibleColumns
        [\<lparr>key = ''a'', label = ''A''\<rparr>, \<lparr>key = ''b'', label = ''B''\<rparr>, \<lparr>key = ''c'', label = ''C''\<rparr>]
        [''b'', ''c'', ''a'']
      = visibleColumns
        [\<lparr>key = ''a'', label = ''A''\<rparr>, \<lparr>key = ''b'', label = ''B''\<rparr>, \<lparr>key = ''c'', label = ''C''\<rparr>]
        [''a'', ''b'', ''c'']"
proof -
  have s: "set [''b'', ''c'', ''a''] = set [''a'', ''b'', ''c'']" by auto
  have off: "toggleColumn [''a'', ''b'', ''c''] ''a'' = [''b'', ''c'']"
    using visible_order_is_schema_order [where k = "''a''" and visible = "[''a'', ''b'', ''c'']"]
    by simp
  have on: "toggleColumn [''b'', ''c''] ''a'' = [''b'', ''c'', ''a'']"
    using visible_order_is_schema_order [where k = "''a''" and visible = "[''b'', ''c'']"]
    by simp
  have same: "visibleColumns
        [\<lparr>key = ''a'', label = ''A''\<rparr>, \<lparr>key = ''b'', label = ''B''\<rparr>, \<lparr>key = ''c'', label = ''C''\<rparr>]
        [''b'', ''c'', ''a'']
      = visibleColumns
        [\<lparr>key = ''a'', label = ''A''\<rparr>, \<lparr>key = ''b'', label = ''B''\<rparr>, \<lparr>key = ''c'', label = ''C''\<rparr>]
        [''a'', ''b'', ''c'']"
    using s visible_order_is_schema_order [where visible' = "[''b'', ''c'', ''a'']"
        and visible = "[''a'', ''b'', ''c'']"]
    by blast
  show ?thesis using s off on same by simp
qed

subsection \<open>Quoting of CSV cells\<close>

lemma replace_quotes_concat:
  "replace_quotes s = concat (map (\<lambda>c. if c = CHR 0x22 then [CHR 0x22, CHR 0x22] else [c]) s)"
  by (induction s) simp_all

text \<open>
  C4. A cell holding null or undefined is the empty string, a boolean is Yes or No, and
  any other value is its string form, wrapped in double quotes with every double quote
  inside doubled exactly when that string form contains a comma, a double quote or a
  line feed. The exported document is the byte-order mark followed by the lines joined
  with line feeds, the first line being the labels of the visible columns and each
  further line the cells of one row, fields joined with commas. The row
  \<^verbatim>\<open>{a: "x,y", b: null, c: true}\<close> with columns a, b, c gives the line
  \<^verbatim>\<open>"x,y",,Yes\<close>.
\<close>

theorem csv_export_format:
  "csvCell JNull = [] \<and> csvCell JUndefined = []
   \<and> csvCell (JBool True) = ''Yes'' \<and> csvCell (JBool False) = ''No''
   \<and> (v \<noteq> JNull \<and> v \<noteq> JUndefined \<and> (\<forall>b. v \<noteq> JBool b) \<longrightarrow>
        csvCell v =
          (if CHR '','' \<in> set (String v) \<or> CHR 0x22 \<in> set (String v) \<or> CHR 0x0A \<in> set (String v)
           then [CHR 0x22] @ replace_quotes (String v) @ [CHR 0x22]
           else String v)
        \<and> ((csvCell v = [CHR 0x22] @ replace_quotes (String v) @ [CHR 0x22])
             \<longleftrightarrow> (CHR '','' \<in> set (String v) \<or> CHR 0x22 \<in> set (String v)
                    \<or> CHR 0x0A \<in> set (String v))))
   \<and> replace_quotes s
        = concat (map (\<lambda>c. if c = CHR 0x22 then [CHR 0x22, CHR 0x22] else [c]) s)
   \<and> handleExport exportType columns visible processed data
        = BOM @ join [CHR 0x0A]
            (join '','' (map label (visibleColumns columns visible))
             # map (\<lambda>r. join '',''
                      (map (\<lambda>col. csvCell (get_prop r (key col))) (visibleColumns columns visible)))
                 (if exportType = ExportVisible then processed else data))
   \<and> BOM = [CHR 0xEF, CHR 0xBB, CHR 0xBF]
   \<and> handleExport ExportAll
        [\<lparr>key = ''a'', label = ''a''\<rparr>, \<lparr>key = ''b'', label = ''b''\<rparr>, \<lparr>key = ''c'', label = ''c''\<rparr>]
        [''a'', ''b'', ''c''] []
        [[''a'' \<mapsto> JStr ''x,y'', ''b'' \<mapsto> JNull, ''c'' \<mapsto> JBool True]]
      = BOM @ ''a,b,c'' @ [CHR 0x0A] @ [CHR 0x22] @ ''x,y'' @ [CHR 0x22] @ '',,Yes''"
proof -
  have cell: "csvCell v =
          (if CHR '','' \<in> set (String v) \<or> CHR 0x22 \<in> set (String v) \<or> CHR 0x0A \<in> set (String v)
           then [CHR 0x22] @ replace_quotes (String v) @ [CHR 0x22]
           else String v)"
    if "v \<noteq> JNull" "v \<noteq> JUndefined" "\<forall>b. v \<noteq> JBool b"
    using that by (cases v) (simp_all add: csvCell_def)
  have iff: "(csvCell v = [CHR 0x22] @ replace_quotes (String v) @ [CHR 0x22])
             \<longleftrightarrow> (CHR '','' \<in> set (String v) \<or> CHR 0x22 \<in> set (String v)
                    \<or> CHR 0x0A \<in> set (String v))"
    if "v \<noteq> JNull" "v \<noteq> JUndefined" "\<forall>b. v \<noteq> JBool b"
  proof
    assume wrapped: "csvCell v = [CHR 0x22] @ replace_quotes (String v) @ [CHR 0x22]"
    show "CHR '','' \<in> set (String v) \<or> CHR 0x22 \<in> set (String v) \<or> CHR 0x0A \<in> set (String v)"
    proof (rule ccontr)
      assume plain: "\<not> (CHR '','' \<in> set (String v) \<or> CHR 0x22 \<in> set (String v)
                    \<or> CHR 0x0A \<in> set (String v))"
      then have "csvCell v = String v" using cell [OF that] by simp
      with wrapped have "String v = [CHR 0x22] @ replace_quotes (String v) @ [CHR 0x22]"
        by simp
      then have "CHR 0x22 \<in> set (String v)"
        by (metis append_Cons list.set_intros(1))
      with plain show False by simp
    qed
  next
    assume "CHR '','' \<in> set (String v) \<or> CHR 0x22 \<in> set (String v) \<or> CHR 0x0A \<in> set (String v)"
    then show "csvCell v = [CHR 0x22] @ replace_quotes (String v) @ [CHR 0x22]"
      using cell [OF that] by simp
  qed
  have doc: "handleExport exportType columns visible processed data
        = BOM @ join [CHR 0x0A]
            (join '','' (map label (visibleColumns columns visible))
             # map (\<lambda>r. join '',''
                      (map (\<lambda>col. csvCell (get_prop r (key col))) (visibleColumns columns visible)))
                 (if exportType = ExportVisible then processed else data))"
    by (simp add: handleExport_def csvContent_def columnsToExport_def visibleColumns_def
        comp_def Let_def)
  have ex: "handleExport ExportAll
        [\<lparr>key = ''a'', label = ''a''\<rparr>, \<lparr>key = ''b'', label = ''b''\<rparr>, \<lparr>key = ''c'', label = ''c''\<rparr>]
        [''a'', ''b'', ''c''] []
        [[''a'' \<mapsto> JStr ''x,y'', ''b'' \<mapsto> JNull, ''c'' \<mapsto> JBool True]]
      = BOM @ ''a,b,c'' @ [CHR 0x0A] @ [CHR 0x22] @ ''x,y'' @ [CHR 0x22] @ '',,Yes''"
    by (simp add: handleExport_def csvContent_def columnsToExport_def csvCell_def get_prop_def)
  have basics: "csvCell JNull = [] \<and> csvCell JUndefined = []
      \<and> csvCell (JBool True) = ''Yes'' \<and> csvCell (JBool False) = ''No''"
    by (simp add: csvCell_def)
  show ?thesis
    using basics cell iff doc ex replace_quotes_concat [of s] BOM_def by blast
qed

theorem csv_export_format_witness:
  "JStr ''x,y'' \<noteq> JNull \<and> JStr ''x,y'' \<noteq> JUndefined \<and> (\<forall>b. JStr ''x,y'' \<noteq> JBool b)
   \<and> csvCell (JStr ''x,y'') = [CHR 0x22] @ ''x,y'' @ [CHR 0x22]
   \<and> csvCell (JNum 10) = ''10''"
  using csv_export_format [where v = "JStr ''x,y''"] csv_export_format [where v = "JNum 10"]
  by (simp add: int_to_string_examples)

subsection \<open>Consistent comparators\<close>

lemma consistent_total:
  assumes "consistent_comparator cf S" "a \<in> S" "b \<in> S"
  shows "cf a b \<le> 0 \<or> cf b a \<le> 0"
proof (rule ccontr)
  assume "\<not> (cf a b \<le> 0 \<or> cf b a \<le> 0)"
  then have "cf a b > 0" "cf b a > 0" by simp_all
  then have "cf a a > 0"
    using assms unfolding consistent_comparator_def by blast
  moreover have "cf a a = 0"
    using assms unfolding consistent_comparator_def by blast
  ultimately show False by simp
qed

lemma consistent_flip:
  assumes "consistent_comparator cf S" "a \<in> S" "b \<in> S" "cf a b < 0"
  shows "cf b a > 0"
proof (rule ccontr)
  assume n: "\<not> cf b a > 0"
  have refl: "cf a a = 0"
    using assms unfolding consistent_comparator_def by blast
  show False
  proof (cases "cf b a = 0")
    case True
    then have "cf a b = 0"
      using assms unfolding consistent_comparator_def by blast
    with assms(4) show False by simp
  next
    case False
    with n have "cf b a < 0" by simp
    with assms(4) have "cf a a < 0"
      using assms(1-3) unfolding consistent_comparator_def by blast
    with refl show False by simp
  qed
qed

lemma consistent_trans:
  assumes c: "consistent_comparator cf S" and S: "a \<in> S" "b \<in> S" "e \<in> S"
    and ab: "cf a b \<le> 0" and be: "cf b e \<le> 0"
  shows "cf a e \<le> 0"
proof (rule ccontr)
  assume "\<not> cf a e \<le> 0"
  then have ae: "cf a e > 0" by simp
  have eq_sym: "cf x y = 0 \<Longrightarrow> cf y x = 0" if "x \<in> S" "y \<in> S" for x y
    using c that unfolding consistent_comparator_def by blast
  have eq_trans: "cf x y = 0 \<Longrightarrow> cf y z = 0 \<Longrightarrow> cf x z = 0"
    if "x \<in> S" "y \<in> S" "z \<in> S" for x y z
    using c that unfolding consistent_comparator_def by blast
  have lt_trans: "cf x y < 0 \<Longrightarrow> cf y z < 0 \<Longrightarrow> cf x z < 0"
    if "x \<in> S" "y \<in> S" "z \<in> S" for x y z
    using c that unfolding consistent_comparator_def by blast
  have gt_trans: "cf x y > 0 \<Longrightarrow> cf y z > 0 \<Longrightarrow> cf x z > 0"
    if "x \<in> S" "y \<in> S" "z \<in> S" for x y z
    using c that unfolding consistent_comparator_def by blast
  show False
  proof (cases "cf a b < 0")
    case True
    show False
    proof (cases "cf b e < 0")
      case True
      with \<open>cf a b < 0\<close> have "cf a e < 0" using lt_trans [OF S] by simp
      with ae show False by simp
    next
      case False
      with be have "cf b e = 0" by simp
      then have "cf e b = 0" using eq_sym [OF S(2) S(3)] by simp
      have "cf b a > 0" using consistent_flip [OF c S(1) S(2) True] .
      with ae have "cf b e > 0" using gt_trans [OF S(2) S(1) S(3)] by simp
      with \<open>cf b e = 0\<close> show False by simp
    qed
  next
    case False
    with ab have ab0: "cf a b = 0" by simp
    show False
    proof (cases "cf b e < 0")
      case True
      then have "cf e b > 0" using consistent_flip [OF c S(2) S(3)] by simp
      with ae have "cf a b > 0" using gt_trans [OF S(1) S(3) S(2)] by simp
      with ab0 show False by simp
    next
      case False
      with be have "cf b e = 0" by simp
      with ab0 have "cf a e = 0" using eq_trans [OF S] by simp
      with ae show False by simp
    qed
  qed
qed

subsection \<open>The sample sort meets the guarantees of the host's\<close>

lemma mset_insert_sorted: "mset (insert_sorted cmp x ys) = add_mset x (mset ys)"
  by (induction ys) simp_all

lemma mset_array_sort: "mset (array_sort cmp xs) = mset xs"
  by (induction xs) (simp_all add: mset_insert_sorted)

lemma set_array_sort: "set (array_sort cmp xs) = set xs"
  using mset_array_sort [of cmp xs] by (metis set_mset_mset)

lemma set_insert_sorted: "set (insert_sorted cmp x ys) = insert x (set ys)"
  using mset_insert_sorted [of cmp x ys] by (metis set_mset_mset set_mset_add_mset_insert)

lemma sorted_insert_sorted:
  assumes tot: "\<forall>a\<in>A. \<forall>b\<in>A. cmp a b \<le> 0 \<or> cmp b a \<le> 0"
    and trans: "\<forall>a\<in>A. \<forall>b\<in>A. \<forall>e\<in>A. cmp a b \<le> 0 \<and> cmp b e \<le> 0 \<longrightarrow> cmp a e \<le> 0"
    and "x \<in> A" "set ys \<subseteq> A" "sorted_wrt (\<lambda>a b. cmp a b \<le> 0) ys"
  shows "sorted_wrt (\<lambda>a b. cmp a b \<le> (0::int)) (insert_sorted cmp x ys)"
  using assms(3-5)
proof (induction ys)
  case Nil
  show ?case by simp
next
  case (Cons y ys)
  show ?case
  proof (cases "cmp x y \<le> 0")
    case True
    have "cmp x z \<le> 0" if "z \<in> set ys" for z
    proof -
      have "cmp y z \<le> 0" using Cons.prems(3) that by simp
      moreover have "y \<in> A" "z \<in> A" using Cons.prems(2) that by auto
      ultimately show ?thesis using trans True \<open>x \<in> A\<close> by blast
    qed
    with True Cons.prems(3) show ?thesis by simp
  next
    case False
    have "y \<in> A" using Cons.prems(2) by simp
    then have yx: "cmp y x \<le> 0" using tot False \<open>x \<in> A\<close> by blast
    have "sorted_wrt (\<lambda>a b. cmp a b \<le> 0) (insert_sorted cmp x ys)"
      using Cons.IH Cons.prems by simp
    with False yx Cons.prems(3) show ?thesis by (simp add: set_insert_sorted)
  qed
qed

lemma sorted_array_sort:
  assumes tot: "\<forall>a\<in>set xs. \<forall>b\<in>set xs. cmp a b \<le> 0 \<or> cmp b a \<le> 0"
    and trans: "\<forall>a\<in>set xs. \<forall>b\<in>set xs. \<forall>e\<in>set xs.
                  cmp a b \<le> 0 \<and> cmp b e \<le> 0 \<longrightarrow> cmp a e \<le> 0"
  shows "sorted_wrt (\<lambda>a b. cmp a b \<le> (0::int)) (array_sort cmp xs)"
proof -
  have "sorted_wrt (\<lambda>a b. cmp a b \<le> 0) (array_sort cmp ys)" if "set ys \<subseteq> set xs" for ys
    using that
  proof (induction ys)
    case Nil
    show ?case by simp
  next
    case (Cons y ys)
    have "sorted_wrt (\<lambda>a b. cmp a b \<le> 0) (array_sort cmp ys)"
      using Cons by simp
    moreover have "y \<in> set xs" "set (array_sort cmp ys) \<subseteq> set xs"
      using Cons.prems by (simp_all add: set_array_sort)
    ultimately show ?case
      using sorted_insert_sorted [OF tot trans] by simp
  qed
  then show ?thesis by simp
qed

lemma host_sort_sample_sort: "host_sort sample_sort"
  unfolding host_sort_def
proof (intro conjI allI impI)
  fix cf :: "row \<Rightarrow> row \<Rightarrow> int option" and xs
  show "mset (sample_sort cf xs) = mset xs"
    by (simp add: sample_sort_def mset_array_sort)
next
  fix cf :: "row \<Rightarrow> row \<Rightarrow> int option" and xs
  assume c: "consistent_comparator (SortCompare cf) (set xs)"
  have "sorted_wrt (\<lambda>a b. SortCompare cf a b \<le> 0) (array_sort (SortCompare cf) xs)"
  proof (rule sorted_array_sort)
    show "\<forall>a\<in>set xs. \<forall>b\<in>set xs. SortCompare cf a b \<le> 0 \<or> SortCompare cf b a \<le> 0"
      using consistent_total [OF c] by blast
    show "\<forall>a\<in>set xs. \<forall>b\<in>set xs. \<forall>e\<in>set xs.
            SortCompare cf a b \<le> 0 \<and> SortCompare cf b e \<le> 0 \<longrightarrow> SortCompare cf a e \<le> 0"
      using consistent_trans [OF c] by blast
  qed
  then show "sorted_wrt (\<lambda>a b. SortCompare cf a b \<le> 0) (sample_sort cf xs)"
    by (simp add: sample_sort_def)
qed

subsection \<open>The comparator of \<open>sortData\<close>\<close>

lemma getRawValue_cases:
  "getRawValue r c =
     (case get_prop r c of
        JUndefined \<Rightarrow> JStr []
      | JNull \<Rightarrow> JStr []
      | JBool b \<Rightarrow> JBool b
      | JNum n \<Rightarrow> JNum n
      | JNaN \<Rightarrow> JNaN
      | JStr s \<Rightarrow> JStr s)"
  by (simp add: getRawValue_def split: jsval.splits)

lemma compareRows_desc:
  "compareRows L C c desc a b = map_option uminus (compareRows L C c asc a b)"
  by (simp add: compareRows_def Let_def)

lemma SortCompare_desc:
  "SortCompare (compareRows L C c desc) a b = - SortCompare (compareRows L C c asc) a b"
  by (simp add: SortCompare_def compareRows_desc split: option.splits)

lemma compareRows_asc:
  "compareRows L C c asc a b =
     (case (get_prop a c, get_prop b c) of
        (JNum x, JNum y) \<Rightarrow> Some (x - y)
      | (JNum x, JNaN) \<Rightarrow> None
      | (JNaN, JNum y) \<Rightarrow> None
      | (JNaN, JNaN) \<Rightarrow> None
      | (JBool x, JBool y) \<Rightarrow> Some (if x = y then 0 else if x then 1 else - 1)
      | (u, v) \<Rightarrow> Some (C (L (if u = JNull \<or> u = JUndefined then [] else String u))
                          (L (if v = JNull \<or> v = JUndefined then [] else String v))))"
  by (simp add: compareRows_def getRawValue_cases Let_def split: jsval.splits)

lemma number_column_consistent:
  assumes "\<forall>r\<in>set data. \<exists>n. get_prop r c = JNum n"
  shows "consistent_comparator (SortCompare (compareRows L C c d)) (set data)"
proof -
  have val: "\<exists>x y. SortCompare (compareRows L C c d) a b = (if d = asc then x - y else y - x)
      \<and> get_prop a c = JNum x \<and> get_prop b c = JNum y"
    if mem: "a \<in> set data" "b \<in> set data" for a b
  proof -
    obtain x y where "get_prop a c = JNum x" "get_prop b c = JNum y"
      using assms mem by blast
    then show ?thesis
      by (cases d) (simp_all add: SortCompare_desc, simp_all add: SortCompare_def compareRows_asc)
  qed
  show ?thesis
    unfolding consistent_comparator_def
  proof (intro conjI ballI impI)
    fix a assume "a \<in> set data"
    then show "SortCompare (compareRows L C c d) a a = 0"
      using val [of a a] by (auto split: if_splits)
  next
    fix a b assume "a \<in> set data" "b \<in> set data"
      and "SortCompare (compareRows L C c d) a b = 0"
    then show "SortCompare (compareRows L C c d) b a = 0"
      using val [of a b] val [of b a] by (auto split: if_splits)
  next
    fix a b e assume "a \<in> set data" "b \<in> set data" "e \<in> set data"
      and "SortCompare (compareRows L C c d) a b = 0 \<and> SortCompare (compareRows L C c d) b e = 0"
    then show "SortCompare (compareRows L C c d) a e = 0"
      using val [of a b] val [of b e] val [of a e] by (auto split: if_splits)
  next
    fix a b e assume "a \<in> set data" "b \<in> set data" "e \<in> set data"
      and "SortCompare (compareRows L C c d) a b < 0 \<and> SortCompare (compareRows L C c d) b e < 0"
    then show "SortCompare (compareRows L C c d) a e < 0"
      using val [of a b] val [of b e] val [of a e] by (auto split: if_splits)
  next
    fix a b e assume "a \<in> set data" "b \<in> set data" "e \<in> set data"
      and "0 < SortCompare (compareRows L C c d) a b \<and> 0 < SortCompare (compareRows L C c d) b e"
    then show "0 < SortCompare (compareRows L C c d) a e"
      using val [of a b] val [of b e] val [of a e] by (auto split: if_splits)
  qed
qed

lemma int_to_string_2: "int_to_string 2 = ''2''"
  by (simp add: int_to_string_def nat_to_string.simps digit_char_def)

text \<open>
  C2, as stated, fails in two places. First, \<^verbatim>\<open>!column\<close> also holds of the empty string,
  so a sort state whose column is the key \<^verbatim>\<open>""\<close> and whose direction is ascending,
  neither of them null, returns its input as it is: the rows \<^verbatim>\<open>{"": 2}, {"": 1}\<close> stay
  in this order although the first compares greater than the second. Second, on a
  column that mixes numbers and strings the comparator is no order: of the values 2,
  "1a" and 10, 2 is less than 10 as a number, "10" less than "1a" and "1a" less than "2"
  as strings, so none of the six arrangements of the three rows is ordered by it,
  whatever the sort returns.
\<close>

theorem sortData_empty_column_counterexample:
  "column \<lparr>column = Some [], direction = Some asc\<rparr> \<noteq> None
   \<and> direction \<lparr>column = Some [], direction = Some asc\<rparr> \<noteq> None
   \<and> sortData sample_sort sample_toLowerCase sample_localeCompare
        \<lparr>column = Some [], direction = Some asc\<rparr>
        [[[] \<mapsto> JNum 2], [[] \<mapsto> JNum 1]]
      = [[[] \<mapsto> JNum 2], [[] \<mapsto> JNum 1]]
   \<and> SortCompare (compareRows sample_toLowerCase sample_localeCompare [] asc)
        [[] \<mapsto> JNum 2] [[] \<mapsto> JNum 1] = 1
   \<and> SortCompare (compareRows sample_toLowerCase sample_localeCompare ''v'' asc)
        [''v'' \<mapsto> JNum 2] [''v'' \<mapsto> JNum 10] < 0
   \<and> SortCompare (compareRows sample_toLowerCase sample_localeCompare ''v'' asc)
        [''v'' \<mapsto> JNum 10] [''v'' \<mapsto> JStr ''1a''] < 0
   \<and> SortCompare (compareRows sample_toLowerCase sample_localeCompare ''v'' asc)
        [''v'' \<mapsto> JStr ''1a''] [''v'' \<mapsto> JNum 2] < 0
   \<and> \<not> sorted_wrt
        (\<lambda>a b. SortCompare (compareRows sample_toLowerCase sample_localeCompare ''v'' asc) a b \<le> 0)
        [[''v'' \<mapsto> JNum 2], [''v'' \<mapsto> JStr ''1a''], [''v'' \<mapsto> JNum 10]]
   \<and> \<not> sorted_wrt
        (\<lambda>a b. SortCompare (compareRows sample_toLowerCase sample_localeCompare ''v'' asc) a b \<le> 0)
        [[''v'' \<mapsto> JNum 2], [''v'' \<mapsto> JNum 10], [''v'' \<mapsto> JStr ''1a'']]
   \<and> \<not> sorted_wrt
        (\<lambda>a b. SortCompare (compareRows sample_toLowerCase sample_localeCompare ''v'' asc) a b \<le> 0)
        [[''v'' \<mapsto> JStr ''1a''], [''v'' \<mapsto> JNum 2], [''v'' \<mapsto> JNum 10]]
   \<and> \<not> sorted_wrt
        (\<lambda>a b. SortCompare (compareRows sample_toLowerCase sample_localeCompare ''v'' asc) a b \<le> 0)
        [[''v'' \<mapsto> JStr ''1a''], [''v'' \<mapsto> JNum 10], [''v'' \<mapsto> JNum 2]]
   \<and> \<not> sorted_wrt
        (\<lambda>a b. SortCompare (compareRows sample_toLowerCase sample_localeCompare ''v'' asc) a b \<le> 0)
        [[''v'' \<mapsto> JNum 10], [''v'' \<mapsto> JNum 2], [''v'' \<mapsto> JStr ''1a'']]
   \<and> \<not> sorted_wrt
        (\<lambda>a b. SortCompare (compareRows sample_toLowerCase sample_localeCompare ''v'' asc) a b \<le> 0)
        [[''v'' \<mapsto> JNum 10], [''v'' \<mapsto> JStr ''1a''], [''v'' \<mapsto> JNum 2]]"
  by (simp add: sortData_def SortCompare_def compareRows_def getRawValue_def get_prop_def
      sample_toLowerCase_def int_to_string_examples int_to_string_2)

text \<open>
  C2, amended. If the column is null or the empty string, or the direction is null, the
  sort returns the input list unchanged. Otherwise it returns what the host's sort makes
  of a copy of the input under the comparator: a list with the same rows, each as often
  as in the input. The comparator takes the difference of two numbers (which is NaN, and
  counts as equal, when one of them is NaN), compares two booleans with false before
  true, and compares every other pair by the locale-aware comparison of the lower-cased
  string forms, null and undefined being the empty string; for the direction desc it is
  the negation of the one for asc. Where the comparator is consistent on the rows, as it
  is on a column of numbers without NaN, no row of the result compares greater than a
  later one; where it is not, as on a column that mixes numbers and strings, the order
  of the result is left to the host.
\<close>

theorem sortData_ordering:
  assumes "host_sort sortfn"
  shows "(column st = None \<or> column st = Some [] \<or> direction st = None \<longrightarrow>
      sortData sortfn L C st data = data)
   \<and> (column st = Some c \<and> c \<noteq> [] \<and> direction st = Some d \<longrightarrow>
        sortData sortfn L C st data = sortfn (compareRows L C c d) data
        \<and> mset (sortData sortfn L C st data) = mset data
        \<and> (consistent_comparator (SortCompare (compareRows L C c d)) (set data) \<longrightarrow>
             sorted_wrt (\<lambda>a b. SortCompare (compareRows L C c d) a b \<le> 0)
               (sortData sortfn L C st data))
        \<and> ((\<forall>r\<in>set data. \<exists>n. get_prop r c = JNum n) \<longrightarrow>
             sorted_wrt (\<lambda>a b. SortCompare (compareRows L C c d) a b \<le> 0)
               (sortData sortfn L C st data)))
   \<and> (get_prop a c = JNum x \<and> get_prop b c = JNum y \<longrightarrow>
        compareRows L C c asc a b = Some (x - y))
   \<and> (is_number (get_prop a c) \<and> is_number (get_prop b c)
        \<and> (get_prop a c = JNaN \<or> get_prop b c = JNaN) \<longrightarrow>
        compareRows L C c asc a b = None \<and> SortCompare (compareRows L C c asc) a b = 0)
   \<and> (get_prop a c = JBool p \<and> get_prop b c = JBool q \<longrightarrow>
        compareRows L C c asc a b = Some (if p = q then 0 else if p then 1 else - 1))
   \<and> (\<not> (is_number (get_prop a c) \<and> is_number (get_prop b c))
        \<and> \<not> (is_boolean (get_prop a c) \<and> is_boolean (get_prop b c)) \<longrightarrow>
        compareRows L C c asc a b
          = Some (C (L (if get_prop a c = JNull \<or> get_prop a c = JUndefined then []
                        else String (get_prop a c)))
                    (L (if get_prop b c = JNull \<or> get_prop b c = JUndefined then []
                        else String (get_prop b c)))))
   \<and> compareRows L C c desc a b = map_option uminus (compareRows L C c asc a b)
   \<and> SortCompare (compareRows L C c desc) a b = - SortCompare (compareRows L C c asc) a b"
proof -
  have perm_host: "mset (sortfn cf xs) = mset xs" for cf xs
    using assms unfolding host_sort_def by blast
  have sorted_host: "sorted_wrt (\<lambda>a b. SortCompare cf a b \<le> 0) (sortfn cf xs)"
    if "consistent_comparator (SortCompare cf) (set xs)" for cf xs
    using assms that unfolding host_sort_def by blast
  have unchanged: "sortData sortfn L C st data = data"
    if "column st = None \<or> column st = Some [] \<or> direction st = None"
    using that by (auto simp: sortData_def split: option.splits)
  have sorts: "sortData sortfn L C st data = sortfn (compareRows L C c d) data"
    if "column st = Some c \<and> c \<noteq> [] \<and> direction st = Some d"
    using that by (simp add: sortData_def)
  have perm: "mset (sortData sortfn L C st data) = mset data"
    if "column st = Some c \<and> c \<noteq> [] \<and> direction st = Some d"
    using sorts [OF that] by (simp add: perm_host)
  have ordered: "sorted_wrt (\<lambda>a b. SortCompare (compareRows L C c d) a b \<le> 0)
               (sortData sortfn L C st data)"
    if "column st = Some c \<and> c \<noteq> [] \<and> direction st = Some d"
      and "consistent_comparator (SortCompare (compareRows L C c d)) (set data)"
    using sorts [OF that(1)] sorted_host [OF that(2)] by simp
  have nums: "sorted_wrt (\<lambda>a b. SortCompare (compareRows L C c d) a b \<le> 0)
               (sortData sortfn L C st data)"
    if "column st = Some c \<and> c \<noteq> [] \<and> direction st = Some d"
      and "\<forall>r\<in>set data. \<exists>n. get_prop r c = JNum n"
    using ordered [OF that(1) number_column_consistent [OF that(2)]] .
  have num: "compareRows L C c asc a b = Some (x - y)"
    if "get_prop a c = JNum x \<and> get_prop b c = JNum y"
    using that by (simp add: compareRows_asc)
  have nan: "compareRows L C c asc a b = None \<and> SortCompare (compareRows L C c asc) a b = 0"
    if "is_number (get_prop a c) \<and> is_number (get_prop b c)
        \<and> (get_prop a c = JNaN \<or> get_prop b c = JNaN)"
    using that
    by (cases "get_prop a c"; cases "get_prop b c")
      (simp_all add: compareRows_asc SortCompare_def)
  have bool: "compareRows L C c asc a b = Some (if p = q then 0 else if p then 1 else - 1)"
    if "get_prop a c = JBool p \<and> get_prop b c = JBool q"
    using that by (simp add: compareRows_asc)
  have other: "compareRows L C c asc a b
          = Some (C (L (if get_prop a c = JNull \<or> get_prop a c = JUndefined then []
                        else String (get_prop a c)))
                    (L (if get_prop b c = JNull \<or> get_prop b c = JUndefined then []
                        else String (get_prop b c))))"
    if "\<not> (is_number (get_prop a c) \<and> is_number (get_prop b c))
        \<and> \<not> (is_boolean (get_prop a c) \<and> is_boolean (get_prop b c))"
    using that by (cases "get_prop a c"; cases "get_prop b c") (simp_all add: compareRows_asc)
  show ?thesis
    using unchanged sorts perm ordered nums num nan bool other
      compareRows_desc [of L C c a b] SortCompare_desc [of L C c a b]
    by blast
qed

theorem sortData_ordering_witness:
  "column \<lparr>column = Some ''n'', direction = Some asc\<rparr> = Some ''n'' \<and> ''n'' \<noteq> []
   \<and> direction \<lparr>column = Some ''n'', direction = Some asc\<rparr> = Some asc
   \<and> get_prop [''n'' \<mapsto> JNum 3] ''n'' = JNum 3
   \<and> get_prop [''n'' \<mapsto> JNum 1] ''n'' = JNum 1
   \<and> get_prop [''n'' \<mapsto> JNum 2] ''n'' = JNum 2
   \<and> sortData sample_sort sample_toLowerCase sample_localeCompare
        \<lparr>column = Some ''n'', direction = Some asc\<rparr>
        [[''n'' \<mapsto> JNum 3], [''n'' \<mapsto> JNum 1], [''n'' \<mapsto> JNum 2]]
      = [[''n'' \<mapsto> JNum 1], [''n'' \<mapsto> JNum 2], [''n'' \<mapsto> JNum 3]]
   \<and> sortData sample_sort sample_toLowerCase sample_localeCompare
        \<lparr>column = Some ''n'', direction = Some desc\<rparr>
        [[''n'' \<mapsto> JNum 3], [''n'' \<mapsto> JNum 1], [''n'' \<mapsto> JNum 2]]
      = [[''n'' \<mapsto> JNum 3], [''n'' \<mapsto> JNum 2], [''n'' \<mapsto> JNum 1]]
   \<and> sortData sample_sort sample_toLowerCase sample_localeCompare
        \<lparr>column = Some ''n'', direction = None\<rparr>
        [[''n'' \<mapsto> JNum 3], [''n'' \<mapsto> JNum 1], [''n'' \<mapsto> JNum 2]]
      = [[''n'' \<mapsto> JNum 3], [''n'' \<mapsto> JNum 1], [''n'' \<mapsto> JNum 2]]
   \<and> sorted_wrt
        (\<lambda>a b. SortCompare (compareRows sample_toLowerCase sample_localeCompare ''n'' asc) a b \<le> 0)
        (sortData sample_sort sample_toLowerCase sample_localeCompare
           \<lparr>column = Some ''n'', direction = Some asc\<rparr>
           [[''n'' \<mapsto> JNum 3], [''n'' \<mapsto> JNum 1], [''n'' \<mapsto> JNum 2]])"
proof -
  note host = host_sort_sample_sort
  have sel: "column \<lparr>column = Some ''n'', direction = Some asc\<rparr> = Some ''n'' \<and> ''n'' \<noteq> []
      \<and> direction \<lparr>column = Some ''n'', direction = Some asc\<rparr> = Some asc"
    by simp
  have vals: "get_prop [''n'' \<mapsto> JNum 3] ''n'' = JNum 3
      \<and> get_prop [''n'' \<mapsto> JNum 1] ''n'' = JNum 1
      \<and> get_prop [''n'' \<mapsto> JNum 2] ''n'' = JNum 2"
    by (simp add: get_prop_def)
  have nums: "\<forall>r\<in>set [[''n'' \<mapsto> JNum 3], [''n'' \<mapsto> JNum 1], [''n'' \<mapsto> JNum 2]].
         \<exists>n. get_prop r ''n'' = JNum n"
    by (simp add: get_prop_def)
  have up: "sortData sample_sort sample_toLowerCase sample_localeCompare
        \<lparr>column = Some ''n'', direction = Some asc\<rparr>
        [[''n'' \<mapsto> JNum 3], [''n'' \<mapsto> JNum 1], [''n'' \<mapsto> JNum 2]]
      = [[''n'' \<mapsto> JNum 1], [''n'' \<mapsto> JNum 2], [''n'' \<mapsto> JNum 3]]"
    by (simp add: sortData_def sample_sort_def SortCompare_def compareRows_def
        getRawValue_def get_prop_def)
  have down: "sortData sample_sort sample_toLowerCase sample_localeCompare
        \<lparr>column = Some ''n'', direction = Some desc\<rparr>
        [[''n'' \<mapsto> JNum 3], [''n'' \<mapsto> JNum 1], [''n'' \<mapsto> JNum 2]]
      = [[''n'' \<mapsto> JNum 3], [''n'' \<mapsto> JNum 2], [''n'' \<mapsto> JNum 1]]"
    by (simp add: sortData_def sample_sort_def SortCompare_def compareRows_def
        getRawValue_def get_prop_def)
  have none: "sortData sample_sort sample_toLowerCase sample_localeCompare
        \<lparr>column = Some ''n'', direction = None\<rparr>
        [[''n'' \<mapsto> JNum 3], [''n'' \<mapsto> JNum 1], [''n'' \<mapsto> JNum 2]]
      = [[''n'' \<mapsto> JNum 3], [''n'' \<mapsto> JNum 1], [''n'' \<mapsto> JNum 2]]"
    using sortData_ordering [OF host, where st = "\<lparr>column = Some ''n'', direction = None\<rparr>"]
    by simp
  have ord: "sorted_wrt
        (\<lambda>a b. SortCompare (compareRows sample_toLowerCase sample_localeCompare ''n'' asc) a b \<le> 0)
        (sortData sample_sort sample_toLowerCase sample_localeCompare
           \<lparr>column = Some ''n'', direction = Some asc\<rparr>
           [[''n'' \<mapsto> JNum 3], [''n'' \<mapsto> JNum 1], [''n'' \<mapsto> JNum 2]])"
    using nums sel sortData_ordering [OF host,
        where st = "\<lparr>column = Some ''n'', direction = Some asc\<rparr>"
        and c = "''n''" and d = asc and L = sample_toLowerCase and C = sample_localeCompare
        and data = "[[''n'' \<mapsto> JNum 3], [''n'' \<mapsto> JNum 1], [''n'' \<mapsto> JNum 2]]"]
    by blast
  show ?thesis using sel vals up down none ord by blast
qed

end
